theory Spec2Isabelle
  imports Main
begin

section \<open>JavaScript strings\<close>

text \<open>
  A JavaScript string is a sequence of UTF-16 code units; \<open>length\<close> counts code units.
  A code unit is modelled by its number. \<open>js\<close> embeds an ASCII literal of the source.
\<close>

type_synonym jschar = nat
type_synonym jsstring = "jschar list"

definition js :: "string \<Rightarrow> jsstring" where
  "js s = map of_char s"

definition isDigit :: "jschar \<Rightarrow> bool" where
  "isDigit c = (48 \<le> c \<and> c \<le> 57)"

definition isUpper :: "jschar \<Rightarrow> bool" where
  "isUpper c = (65 \<le> c \<and> c \<le> 90)"

definition isLower :: "jschar \<Rightarrow> bool" where
  "isLower c = (97 \<le> c \<and> c \<le> 122)"

definition isAlpha :: "jschar \<Rightarrow> bool" where
  "isAlpha c = (isUpper c \<or> isLower c)"

text \<open>The class \<open>\w\<close> of a regular expression: \<open>[A-Za-z0-9_]\<close>.\<close>

definition isWordChar :: "jschar \<Rightarrow> bool" where
  "isWordChar c = (isAlpha c \<or> isDigit c \<or> c = 95)"

text \<open>
  White space and line terminators of ECMAScript, which is what \<open>trim\<close> strips and what
  the class \<open>\s\<close> matches: TAB, LF, VT, FF, CR, SP, NBSP, U+1680, U+2000..U+200A, U+2028,
  U+2029, U+202F, U+205F, U+3000, U+FEFF.
\<close>

definition isSpace :: "jschar \<Rightarrow> bool" where
  "isSpace c = ((9 \<le> c \<and> c \<le> 13) \<or> c = 32 \<or> c = 160 \<or> c = 5760 \<or> (8192 \<le> c \<and> c \<le> 8202)
      \<or> c = 8232 \<or> c = 8233 \<or> c = 8239 \<or> c = 8287 \<or> c = 12288 \<or> c = 65279)"

definition trim :: "jsstring \<Rightarrow> jsstring" where
  "trim s = rev (dropWhile isSpace (rev (dropWhile isSpace s)))"

definition lowerAscii :: "jschar \<Rightarrow> jschar" where
  "lowerAscii c = (if isUpper c then c + 32 else c)"

definition upperAscii :: "jschar \<Rightarrow> jschar" where
  "upperAscii c = (if isLower c then c - 32 else c)"

text \<open>
  \<open>toLowerCase\<close> follows the Unicode case tables of the JavaScript runtime, which are not
  part of the repository. On a string of ASCII code units it lowers \<open>A..Z\<close> and nothing
  else; on any other string the runtime's mapping is the parameter \<open>U\<close>.
\<close>

definition toLowerCase :: "(jsstring \<Rightarrow> jsstring) \<Rightarrow> jsstring \<Rightarrow> jsstring" where
  "toLowerCase U s = (if list_all (\<lambda>c. c < 128) s then map lowerAscii s else U s)"

primrec startsWith :: "jsstring \<Rightarrow> jsstring \<Rightarrow> bool" where
  "startsWith s [] = True"
| "startsWith s (k # ks) = (case s of [] \<Rightarrow> False | c # cs \<Rightarrow> c = k \<and> startsWith cs ks)"

text \<open>\<open>s.includes(k)\<close>: \<open>k\<close> occurs in \<open>s\<close> at some position.\<close>

primrec includes_str :: "jsstring \<Rightarrow> jsstring \<Rightarrow> bool" where
  "includes_str [] k = (k = [])"
| "includes_str (c # cs) k = (startsWith (c # cs) k \<or> includes_str cs k)"

text \<open>\<open>s.split(sep)\<close> for a separator of one code unit; the result is never empty.\<close>

primrec split :: "jschar \<Rightarrow> jsstring \<Rightarrow> jsstring list" where
  "split sep [] = [[]]"
| "split sep (c # cs) =
     (if c = sep then [] # split sep cs
      else (case split sep cs of [] \<Rightarrow> [[c]] | w # ws \<Rightarrow> (c # w) # ws))"

text \<open>\<open>xs.join(sep)\<close>.\<close>

fun join :: "jsstring \<Rightarrow> jsstring list \<Rightarrow> jsstring" where
  "join sep [] = []"
| "join sep [x] = x"
| "join sep (x # y # ys) = x @ sep @ join sep (y # ys)"

section \<open>Regular expressions\<close>

text \<open>
  The regular expressions of the parser use character classes, greedy bounded and
  unbounded repetition of a class, optional groups, alternation, \<open>\b\<close> and \<open>^\<close>.
  A matcher state is the code unit before the current position (if any) and the rest
  of the input. \<open>rxm\<close> lists the states a backtracking matcher reaches, in the order
  it tries them, so the head of the list is the match JavaScript reports.
\<close>

datatype rx =
    Eps
  | Cls "jschar \<Rightarrow> bool"
  | Rep nat "nat option" "jschar \<Rightarrow> bool"
  | Opt rx
  | Seq rx rx
  | Alt rx rx
  | WordB
  | Bol

type_synonym rxstate = "jschar option \<times> jsstring"

text \<open>Greedy repetition \<open>{lo,hi}\<close> of a class: one more code unit first, stopping second.\<close>

fun repC :: "(jschar \<Rightarrow> bool) \<Rightarrow> nat \<Rightarrow> nat option \<Rightarrow> jschar option \<Rightarrow> jsstring \<Rightarrow> rxstate list" where
  "repC P lo hi p [] = (if lo = 0 then [(p, [])] else [])"
| "repC P lo hi p (c # cs) =
     (if P c \<and> hi \<noteq> Some 0 then repC P (lo - 1) (map_option (\<lambda>h. h - 1) hi) (Some c) cs else [])
     @ (if lo = 0 then [(p, c # cs)] else [])"

definition atWordBoundary :: "jschar option \<Rightarrow> jsstring \<Rightarrow> bool" where
  "atWordBoundary p s =
     ((case p of None \<Rightarrow> False | Some c \<Rightarrow> isWordChar c)
        \<noteq> (case s of [] \<Rightarrow> False | c # _ \<Rightarrow> isWordChar c))"

fun rxm :: "rx \<Rightarrow> rxstate \<Rightarrow> rxstate list" where
  "rxm Eps st = [st]"
| "rxm (Cls P) (p, s) = (case s of [] \<Rightarrow> [] | c # cs \<Rightarrow> if P c then [(Some c, cs)] else [])"
| "rxm (Rep lo hi P) (p, s) = repC P lo hi p s"
| "rxm (Opt r) st = rxm r st @ [st]"
| "rxm (Seq a b) st = concat (map (rxm b) (rxm a st))"
| "rxm (Alt a b) st = rxm a st @ rxm b st"
| "rxm WordB (p, s) = (if atWordBoundary p s then [(p, s)] else [])"
| "rxm Bol (p, s) = (if p = None then [(p, s)] else [])"

text \<open>
  The leftmost match: every start position in turn, the end of the input included;
  the result is the matched substring (\<open>match[0]\<close>).
\<close>

fun rxsearch :: "rx \<Rightarrow> jschar option \<Rightarrow> jsstring \<Rightarrow> jsstring option" where
  "rxsearch r p [] = (case rxm r (p, []) of [] \<Rightarrow> None | _ # _ \<Rightarrow> Some [])"
| "rxsearch r p (c # cs) =
     (case rxm r (p, c # cs) of
        [] \<Rightarrow> rxsearch r (Some c) cs
      | (_, rest) # _ \<Rightarrow> Some (take (length (c # cs) - length rest) (c # cs)))"

definition rxmatch :: "rx \<Rightarrow> jsstring \<Rightarrow> jsstring option" where
  "rxmatch r s = rxsearch r None s"

definition rxtest :: "rx \<Rightarrow> jsstring \<Rightarrow> bool" where
  "rxtest r s = (rxmatch r s \<noteq> None)"

definition seqs :: "rx list \<Rightarrow> rx" where
  "seqs rs = foldr Seq rs Eps"

definition chr1 :: "char \<Rightarrow> rx" where
  "chr1 x = Cls (\<lambda>c. c = of_char x)"

text \<open>
  A literal under the flag \<open>i\<close>: a code unit matches when its canonical (upper-case)
  form equals that of the pattern's; no code unit outside ASCII canonicalizes into ASCII.
\<close>

definition lit_i :: "string \<Rightarrow> rx" where
  "lit_i xs = seqs (map (\<lambda>x. Cls (\<lambda>c. upperAscii c = upperAscii (of_char x))) xs)"

definition oneOf :: "string \<Rightarrow> jschar \<Rightarrow> bool" where
  "oneOf xs c = (c \<in> set (js xs))"

definition lit :: "string \<Rightarrow> rx" where
  "lit xs = seqs (map chr1 xs)"

section \<open>Line classifier\<close>

text \<open>\<open>/\b[A-Za-z0-9._%+-]+@[A-Za-z0-9.-]+\.[A-Z|a-z]{2,}\b/\<close>\<close>

definition emailRegex :: rx where
  "emailRegex = seqs
     [WordB,
      Rep 1 None (\<lambda>c. isAlpha c \<or> isDigit c \<or> oneOf ''._%+-'' c),
      chr1 CHR ''@'',
      Rep 1 None (\<lambda>c. isAlpha c \<or> isDigit c \<or> oneOf ''.-'' c),
      chr1 CHR ''.'',
      Rep 2 None (\<lambda>c. isAlpha c \<or> oneOf ''|'' c),
      WordB]"

text \<open>\<open>/(\+\d{1,3}[-.\s]?)?\(?\d{3}\)?[-.\s]?\d{3}[-.\s]?\d{4}/\<close>\<close>

definition phoneSep :: "jschar \<Rightarrow> bool" where
  "phoneSep c = (oneOf ''-.'' c \<or> isSpace c)"

definition phoneRegex :: rx where
  "phoneRegex = seqs
     [Opt (seqs [chr1 CHR ''+'', Rep 1 (Some 3) isDigit, Rep 0 (Some 1) phoneSep]),
      Rep 0 (Some 1) (oneOf ''(''),
      Rep 3 (Some 3) isDigit,
      Rep 0 (Some 1) (oneOf '')''),
      Rep 0 (Some 1) phoneSep,
      Rep 3 (Some 3) isDigit,
      Rep 0 (Some 1) phoneSep,
      Rep 4 (Some 4) isDigit]"

text \<open>\<open>/(linkedin\.com\/in\/[\w-]+|linkedin\.com\/pub\/[\w-]+)/i\<close>\<close>

definition linkedinRegex :: rx where
  "linkedinRegex =
     Alt (seqs [lit_i ''linkedin.com/in/'', Rep 1 None (\<lambda>c. isWordChar c \<or> oneOf ''-'' c)])
         (seqs [lit_i ''linkedin.com/pub/'', Rep 1 None (\<lambda>c. isWordChar c \<or> oneOf ''-'' c)])"

text \<open>\<open>/\b\w+,\s*\w+\b/\<close>, \<open>/\b\w+,\s*\w{2}\b/\<close>, \<open>/\b\d{5}(-\d{4})?\b/\<close>\<close>

definition locationPatterns :: "rx list" where
  "locationPatterns =
     [seqs [WordB, Rep 1 None isWordChar, chr1 CHR '','', Rep 0 None isSpace, Rep 1 None isWordChar, WordB],
      seqs [WordB, Rep 1 None isWordChar, chr1 CHR '','', Rep 0 None isSpace, Rep 2 (Some 2) isWordChar, WordB],
      seqs [WordB, Rep 5 (Some 5) isDigit, Opt (seqs [chr1 CHR ''-'', Rep 4 (Some 4) isDigit]), WordB]]"

definition isLocationLine :: "jsstring \<Rightarrow> bool" where
  "isLocationLine line = list_ex (\<lambda>pattern. rxtest pattern line) locationPatterns"

definition roleKeywords :: "jsstring list" where
  "roleKeywords = map js [''developer'', ''engineer'', ''manager'', ''analyst'', ''designer'',
     ''consultant'', ''specialist'']"

definition isRoleLine :: "(jsstring \<Rightarrow> jsstring) \<Rightarrow> jsstring \<Rightarrow> bool" where
  "isRoleLine U line = list_ex (\<lambda>keyword. includes_str (toLowerCase U line) keyword) roleKeywords"

text \<open>\<open>/^[A-Z]/\<close>\<close>

definition startsUpper :: rx where
  "startsUpper = seqs [Bol, Cls isUpper]"

definition isJobTitle :: "jsstring \<Rightarrow> bool" where
  "isJobTitle line = (length line > 5 \<and> length line < 100 \<and> rxtest startsUpper line)"

definition isCompanyName :: "jsstring \<Rightarrow> bool" where
  "isCompanyName line = (length line > 2 \<and> length line < 100)"

text \<open>
  \<open>/\d{4}\s*-\s*\d{4}/\<close>, \<open>/\d{1,2}\/\d{4}\s*-\s*\d{1,2}\/\d{4}/\<close>,
  \<open>/\w+\s+\d{4}\s*-\s*\w+\s+\d{4}/\<close>, \<open>/present|current/i\<close>
\<close>

definition datePatterns :: "rx list" where
  "datePatterns =
     [seqs [Rep 4 (Some 4) isDigit, Rep 0 None isSpace, chr1 CHR ''-'', Rep 0 None isSpace,
            Rep 4 (Some 4) isDigit],
      seqs [Rep 1 (Some 2) isDigit, chr1 CHR ''/'', Rep 4 (Some 4) isDigit, Rep 0 None isSpace,
            chr1 CHR ''-'', Rep 0 None isSpace,
            Rep 1 (Some 2) isDigit, chr1 CHR ''/'', Rep 4 (Some 4) isDigit],
      seqs [Rep 1 None isWordChar, Rep 1 None isSpace, Rep 4 (Some 4) isDigit, Rep 0 None isSpace,
            chr1 CHR ''-'', Rep 0 None isSpace,
            Rep 1 None isWordChar, Rep 1 None isSpace, Rep 4 (Some 4) isDigit],
      Alt (lit_i ''present'') (lit_i ''current'')]"

definition isDateRange :: "jsstring \<Rightarrow> bool" where
  "isDateRange line = list_ex (\<lambda>pattern. rxtest pattern line) datePatterns"

text \<open>\<open>/[A-Za-z]/\<close>\<close>

definition isLocation :: "jsstring \<Rightarrow> bool" where
  "isLocation line = (length line > 3 \<and> length line < 50 \<and> rxtest (Cls isAlpha) line)"

definition degreeKeywords :: "jsstring list" where
  "degreeKeywords = map js [''bachelor'', ''master'', ''phd'', ''doctorate'', ''associate'',
     ''diploma'', ''certificate'']"

definition isDegree :: "(jsstring \<Rightarrow> jsstring) \<Rightarrow> jsstring \<Rightarrow> bool" where
  "isDegree U line = list_ex (\<lambda>keyword. includes_str (toLowerCase U line) keyword) degreeKeywords"

definition institutionKeywords :: "jsstring list" where
  "institutionKeywords = map js [''university'', ''college'', ''institute'', ''school'']"

definition isInstitution :: "(jsstring \<Rightarrow> jsstring) \<Rightarrow> jsstring \<Rightarrow> bool" where
  "isInstitution U line =
     (list_ex (\<lambda>keyword. includes_str (toLowerCase U line) keyword) institutionKeywords
      \<or> (length line > 5 \<and> length line < 100))"

definition isProjectTitle :: "jsstring \<Rightarrow> bool" where
  "isProjectTitle line = (length line > 5 \<and> length line < 100 \<and> rxtest startsUpper line)"

definition extractAchievementTitle :: "jsstring \<Rightarrow> jsstring" where
  "extractAchievementTitle line = join (js '' '') (take 3 (split 32 line))"

text \<open>\<open>/\b(19|20)\d{2}\b/\<close>\<close>

definition yearRegex :: rx where
  "yearRegex = seqs [WordB, Alt (lit ''19'') (lit ''20''), Rep 2 (Some 2) isDigit, WordB]"

definition extractYear :: "jsstring \<Rightarrow> jsstring" where
  "extractYear line = (case rxmatch yearRegex line of Some m \<Rightarrow> m | None \<Rightarrow> [])"

section \<open>Entries of the resume record\<close>

text \<open>
  The object literals of the parser. Field names are those of the source; where two
  object shapes share a field name, the later record carries a suffix.
\<close>

record exp_entry =
  title :: jsstring
  companyName :: jsstring
  date :: jsstring
  companyLocation :: jsstring
  accomplishment :: "jsstring list"

record edu_entry =
  degree :: jsstring
  institution :: jsstring
  duration :: jsstring
  location_edu :: jsstring

record achievement_entry =
  keyAchievements :: jsstring
  describe :: jsstring

record project_entry =
  title_proj :: jsstring
  description :: jsstring
  duration_proj :: jsstring

record cert_entry =
  title_cert :: jsstring
  issuedBy :: jsstring
  year :: jsstring

record course_entry =
  title_course :: jsstring
  description_course :: jsstring

section \<open>Entry parsers\<close>

fun parseExperience_loop :: "exp_entry list \<Rightarrow> exp_entry option \<Rightarrow> jsstring list \<Rightarrow> exp_entry list" where
  "parseExperience_loop experiences currentExp [] =
     (case currentExp of Some e \<Rightarrow> experiences @ [e] | None \<Rightarrow> experiences)"
| "parseExperience_loop experiences currentExp (line # rest) =
     (if isJobTitle line then
        parseExperience_loop
          (case currentExp of Some e \<Rightarrow> experiences @ [e] | None \<Rightarrow> experiences)
          (Some \<lparr>title = line, companyName = [], date = [], companyLocation = [], accomplishment = []\<rparr>)
          rest
      else (case currentExp of
          None \<Rightarrow> parseExperience_loop experiences None rest
        | Some e \<Rightarrow>
            parseExperience_loop experiences
              (Some (if isCompanyName line then e\<lparr>companyName := line\<rparr>
                     else if isDateRange line then e\<lparr>date := line\<rparr>
                     else if isLocation line then e\<lparr>companyLocation := line\<rparr>
                     else if length line > 10 then e\<lparr>accomplishment := accomplishment e @ [line]\<rparr>
                     else e))
              rest))"

definition parseExperience :: "jsstring list \<Rightarrow> exp_entry list" where
  "parseExperience content = parseExperience_loop [] None content"

fun parseEducation_loop ::
  "(jsstring \<Rightarrow> jsstring) \<Rightarrow> edu_entry list \<Rightarrow> edu_entry option \<Rightarrow> jsstring list \<Rightarrow> edu_entry list" where
  "parseEducation_loop U education currentEdu [] =
     (case currentEdu of Some e \<Rightarrow> education @ [e] | None \<Rightarrow> education)"
| "parseEducation_loop U education currentEdu (line # rest) =
     (if isDegree U line then
        parseEducation_loop U
          (case currentEdu of Some e \<Rightarrow> education @ [e] | None \<Rightarrow> education)
          (Some \<lparr>degree = line, institution = [], duration = [], location_edu = []\<rparr>)
          rest
      else (case currentEdu of
          None \<Rightarrow> parseEducation_loop U education None rest
        | Some e \<Rightarrow>
            parseEducation_loop U education
              (Some (if isInstitution U line then e\<lparr>institution := line\<rparr>
                     else if isDateRange line then e\<lparr>duration := line\<rparr>
                     else if isLocation line then e\<lparr>location_edu := line\<rparr>
                     else e))
              rest))"

definition parseEducation :: "(jsstring \<Rightarrow> jsstring) \<Rightarrow> jsstring list \<Rightarrow> edu_entry list" where
  "parseEducation U content = parseEducation_loop U [] None content"

text \<open>The separators \<open>','\<close>, U+2022, U+00B7, \<open>'|'\<close>, \<open>'\n'\<close>, \<open>';'\<close>.\<close>

definition separators :: "jschar list" where
  "separators = [44, 8226, 183, 124, 10, 59]"

definition parseSkills :: "jsstring list \<Rightarrow> jsstring list" where
  "parseSkills content =
     (let text = join (js '' '') content;
          skillItems = foldl (\<lambda>items sep. concat (map (split sep) items)) [text] separators
      in filter (\<lambda>cleanSkill. length cleanSkill > 1 \<and> length cleanSkill < 50) (map trim skillItems))"

definition parseAchievements :: "jsstring list \<Rightarrow> achievement_entry list" where
  "parseAchievements content =
     map (\<lambda>line. \<lparr>keyAchievements = extractAchievementTitle line, describe = line\<rparr>)
         (filter (\<lambda>line. length line > 10) content)"

fun parseProjects_loop :: "project_entry list \<Rightarrow> project_entry option \<Rightarrow> jsstring list \<Rightarrow> project_entry list" where
  "parseProjects_loop projects currentProject [] =
     (case currentProject of Some e \<Rightarrow> projects @ [e] | None \<Rightarrow> projects)"
| "parseProjects_loop projects currentProject (line # rest) =
     (if isProjectTitle line then
        parseProjects_loop
          (case currentProject of Some e \<Rightarrow> projects @ [e] | None \<Rightarrow> projects)
          (Some \<lparr>title_proj = line, description = [], duration_proj = []\<rparr>)
          rest
      else (case currentProject of
          None \<Rightarrow> parseProjects_loop projects None rest
        | Some e \<Rightarrow>
            parseProjects_loop projects
              (Some (if isDateRange line then e\<lparr>duration_proj := line\<rparr>
                     else if length line > 10 then
                       e\<lparr>description := description e @ (if description e \<noteq> [] then js '' '' else []) @ line\<rparr>
                     else e))
              rest))"

definition parseProjects :: "jsstring list \<Rightarrow> project_entry list" where
  "parseProjects content = parseProjects_loop [] None content"

definition parseCertifications :: "jsstring list \<Rightarrow> cert_entry list" where
  "parseCertifications content =
     map (\<lambda>line. \<lparr>title_cert = line, issuedBy = [], year = extractYear line\<rparr>)
         (filter (\<lambda>line. length line > 5) content)"

definition parseCourses :: "jsstring list \<Rightarrow> course_entry list" where
  "parseCourses content =
     map (\<lambda>line. \<lparr>title_course = line, description_course = []\<rparr>)
         (filter (\<lambda>line. length line > 5) content)"

section \<open>The record and its basic information\<close>

record resumeData =
  name :: jsstring
  role :: jsstring
  phone :: jsstring
  email :: jsstring
  linkedin :: jsstring
  location :: jsstring
  summary :: jsstring
  experience :: "exp_entry list"
  education :: "edu_entry list"
  achievements :: "achievement_entry list"
  skills :: "jsstring list"
  languages :: "jsstring list"
  projects :: "project_entry list"
  courses :: "course_entry list"
  certifications :: "cert_entry list"

definition emptyResumeData :: resumeData where
  "emptyResumeData = \<lparr>name = [], role = [], phone = [], email = [], linkedin = [], location = [],
     summary = [], experience = [], education = [], achievements = [], skills = [],
     languages = [], projects = [], courses = [], certifications = []\<rparr>"

subsection \<open>Basic information\<close>

text \<open>The body of the first loop of \<open>extractBasicInfo\<close>, for one line.\<close>

definition basicInfoLine :: "resumeData \<Rightarrow> jsstring \<Rightarrow> resumeData" where
  "basicInfoLine d0 line =
     (let d1 = (case rxmatch emailRegex line of
                  Some m \<Rightarrow> if email d0 = [] then d0\<lparr>email := m\<rparr> else d0
                | None \<Rightarrow> d0);
          d2 = (case rxmatch phoneRegex line of
                  Some m \<Rightarrow> if phone d1 = [] then d1\<lparr>phone := m\<rparr> else d1
                | None \<Rightarrow> d1);
          d3 = (case rxmatch linkedinRegex line of
                  Some m \<Rightarrow> if linkedin d2 = [] then d2\<lparr>linkedin := js ''https://'' @ m\<rparr> else d2
                | None \<Rightarrow> d2)
      in if location d3 = [] \<and> isLocationLine line then d3\<lparr>location := line\<rparr> else d3)"

text \<open>The second loop, over \<open>lines[1..min(5, length) - 1]\<close>, leaving at the first assignment.\<close>

fun roleLoop :: "(jsstring \<Rightarrow> jsstring) \<Rightarrow> resumeData \<Rightarrow> jsstring list \<Rightarrow> resumeData" where
  "roleLoop U d [] = d"
| "roleLoop U d (line # rest) =
     (if isRoleLine U line \<and> role d = [] then d\<lparr>role := line\<rparr> else roleLoop U d rest)"

definition extractBasicInfo :: "(jsstring \<Rightarrow> jsstring) \<Rightarrow> jsstring list \<Rightarrow> resumeData \<Rightarrow> resumeData" where
  "extractBasicInfo U lines d =
     (let d1 = (case lines of [] \<Rightarrow> d | l # _ \<Rightarrow> d\<lparr>name := l\<rparr>);
          d2 = foldl basicInfoLine d1 (take 10 lines)
      in roleLoop U d2 (take 4 (drop 1 lines)))"

section \<open>Section segmenter\<close>

datatype section_tag =
  Summary | Experience | Education | Skills | Achievements | Projects | Certifications | Courses

text \<open>The object \<open>sectionKeywords\<close>, in the order of its entries.\<close>

definition sectionKeywords :: "(section_tag \<times> jsstring list) list" where
  "sectionKeywords =
     [(Summary, map js [''summary'', ''profile'', ''objective'', ''about'']),
      (Experience, map js [''experience'', ''employment'', ''work history'', ''career'',
                           ''professional experience'']),
      (Education, map js [''education'', ''academic'', ''qualification'', ''degree'']),
      (Skills, map js [''skills'', ''technical skills'', ''competencies'', ''expertise'']),
      (Achievements, map js [''achievements'', ''accomplishments'', ''awards'', ''recognition'']),
      (Projects, map js [''projects'', ''portfolio'', ''work samples'']),
      (Certifications, map js [''certifications'', ''certificates'', ''licenses'']),
      (Courses, map js [''courses'', ''training'', ''coursework''])]"

fun detectSectionHeader :: "jsstring \<Rightarrow> (section_tag \<times> jsstring list) list \<Rightarrow> section_tag option" where
  "detectSectionHeader line [] = None"
| "detectSectionHeader line ((section, keywords) # rest) =
     (if list_ex (\<lambda>keyword. includes_str line keyword \<and> length line < 50) keywords
      then Some section
      else detectSectionHeader line rest)"

definition processSectionContent ::
  "(jsstring \<Rightarrow> jsstring) \<Rightarrow> section_tag \<Rightarrow> jsstring list \<Rightarrow> resumeData \<Rightarrow> resumeData" where
  "processSectionContent U section content d =
     (case section of
        Summary \<Rightarrow> d\<lparr>summary := trim (join (js '' '') content)\<rparr>
      | Experience \<Rightarrow> d\<lparr>experience := parseExperience content\<rparr>
      | Education \<Rightarrow> d\<lparr>education := parseEducation U content\<rparr>
      | Skills \<Rightarrow> d\<lparr>skills := parseSkills content\<rparr>
      | Achievements \<Rightarrow> d\<lparr>achievements := parseAchievements content\<rparr>
      | Projects \<Rightarrow> d\<lparr>projects := parseProjects content\<rparr>
      | Certifications \<Rightarrow> d\<lparr>certifications := parseCertifications content\<rparr>
      | Courses \<Rightarrow> d\<lparr>courses := parseCourses content\<rparr>)"

text \<open>
  The state of the loop of \<open>extractSections\<close>: \<open>currentSection\<close> (\<open>None\<close> for the
  empty string), \<open>sectionContent\<close> and the record being filled.
\<close>

type_synonym segstate = "section_tag option \<times> jsstring list \<times> resumeData"

definition flushSection :: "(jsstring \<Rightarrow> jsstring) \<Rightarrow> section_tag option \<Rightarrow> jsstring list \<Rightarrow> resumeData \<Rightarrow> resumeData" where
  "flushSection U currentSection sectionContent d =
     (case currentSection of
        Some s \<Rightarrow> if length sectionContent > 0 then processSectionContent U s sectionContent d else d
      | None \<Rightarrow> d)"

fun sectionStep :: "(jsstring \<Rightarrow> jsstring) \<Rightarrow> segstate \<Rightarrow> jsstring \<Rightarrow> segstate" where
  "sectionStep U (currentSection, sectionContent, d) line =
     (case detectSectionHeader (toLowerCase U line) sectionKeywords of
        Some detectedSection \<Rightarrow>
          (Some detectedSection, [], flushSection U currentSection sectionContent d)
      | None \<Rightarrow>
          (if currentSection \<noteq> None then (currentSection, sectionContent @ [line], d)
           else (currentSection, sectionContent, d)))"

definition extractSections :: "(jsstring \<Rightarrow> jsstring) \<Rightarrow> jsstring list \<Rightarrow> resumeData \<Rightarrow> resumeData" where
  "extractSections U lines d =
     (case foldl (sectionStep U) (None, [], d) lines of
        (currentSection, sectionContent, d') \<Rightarrow> flushSection U currentSection sectionContent d')"

section \<open>Data normalizer\<close>

definition cleanResumeData :: "resumeData \<Rightarrow> resumeData" where
  "cleanResumeData d =
     d\<lparr>name := (if name d = [] \<or> trim (name d) = [] then js ''Your Name'' else name d),
       email := (if email d = [] \<or> trim (email d) = [] then js ''your.email@example.com'' else email d),
       phone := (if phone d = [] \<or> trim (phone d) = [] then js ''123-456-7890'' else phone d),
       role := (if role d = [] \<or> trim (role d) = [] then js ''Professional Role'' else role d),
       location := (if location d = [] \<or> trim (location d) = [] then js ''Your City, Country''
                    else location d),
       skills := filter (\<lambda>skill. skill \<noteq> [] \<and> length (trim skill) > 0) (skills d),
       languages := filter (\<lambda>lang. lang \<noteq> [] \<and> length (trim lang) > 0) (languages d),
       experience := filter (\<lambda>exp. title exp \<noteq> [] \<and> length (trim (title exp)) > 0) (experience d),
       education := filter (\<lambda>edu. degree edu \<noteq> [] \<and> length (trim (degree edu)) > 0) (education d),
       achievements := filter (\<lambda>ach. keyAchievements ach \<noteq> [] \<and> length (trim (keyAchievements ach)) > 0)
                         (achievements d),
       projects := filter (\<lambda>proj. title_proj proj \<noteq> [] \<and> length (trim (title_proj proj)) > 0)
                     (projects d)\<rparr>"

section \<open>The parser\<close>

definition textLines :: "jsstring \<Rightarrow> jsstring list" where
  "textLines text = filter (\<lambda>line. length line > 0) (map trim (split 10 text))"

definition parseTextToStructuredData :: "(jsstring \<Rightarrow> jsstring) \<Rightarrow> jsstring \<Rightarrow> resumeData" where
  "parseTextToStructuredData U text =
     (let lines = textLines text
      in cleanResumeData (extractSections U lines (extractBasicInfo U lines emptyResumeData)))"

text \<open>
  A thrown \<open>Error\<close> is its message. The file system and the two decoding libraries
  (\<open>pdf-parse\<close>, \<open>mammoth\<close>) are outside the repository: \<open>readFile\<close> gives the text of
  the file at a path, \<open>pdfText\<close> and \<open>wordText\<close> the text decoded from the file at a
  path, each or the message of the error it throws.
\<close>

datatype error = Error jsstring

record env =
  readFile :: "jsstring \<Rightarrow> jsstring + jsstring"
  pdfText :: "jsstring \<Rightarrow> jsstring + jsstring"
  wordText :: "jsstring \<Rightarrow> jsstring + jsstring"

definition extractFromPDF :: "env \<Rightarrow> jsstring \<Rightarrow> error + jsstring" where
  "extractFromPDF E filePath =
     (case pdfText E filePath of
        Inl msg \<Rightarrow> Inl (Error (js ''Failed to extract text from PDF: '' @ msg))
      | Inr text \<Rightarrow> Inr text)"

definition extractFromWord :: "env \<Rightarrow> jsstring \<Rightarrow> error + jsstring" where
  "extractFromWord E filePath =
     (case wordText E filePath of
        Inl msg \<Rightarrow> Inl (Error (js ''Failed to extract text from Word document: '' @ msg))
      | Inr text \<Rightarrow> Inr text)"

text \<open>The \<open>switch\<close> of \<open>parseResumeContent\<close>, which yields \<open>textContent\<close> or throws.\<close>

definition extractTextContent :: "env \<Rightarrow> jsstring \<Rightarrow> jsstring \<Rightarrow> error + jsstring" where
  "extractTextContent E filePathOrContent mimeType =
     (if mimeType = js ''application/pdf'' then extractFromPDF E filePathOrContent
      else if mimeType = js ''application/msword''
            \<or> mimeType = js ''application/vnd.openxmlformats-officedocument.wordprocessingml.document''
        then extractFromWord E filePathOrContent
      else if mimeType = js ''text/plain'' then
        (if \<not> includes_str filePathOrContent (js ''/'') \<and> \<not> includes_str filePathOrContent [92]
         then Inr filePathOrContent
         else (case readFile E filePathOrContent of Inl msg \<Rightarrow> Inl (Error msg) | Inr text \<Rightarrow> Inr text))
      else Inl (Error (js ''Unsupported file type: '' @ mimeType)))"

definition parseResumeContent ::
  "(jsstring \<Rightarrow> jsstring) \<Rightarrow> env \<Rightarrow> jsstring \<Rightarrow> jsstring \<Rightarrow> error + resumeData" where
  "parseResumeContent U E filePathOrContent mimeType =
     (case extractTextContent E filePathOrContent mimeType of
        Inl e \<Rightarrow> Inl e
      | Inr textContent \<Rightarrow>
          if textContent = [] \<or> length (trim textContent) = 0
          then Inl (Error (js ''No readable content found in the file''))
          else Inr (parseTextToStructuredData U textContent))"

section \<open>Concrete inputs\<close>

text \<open>A file system without files and decoders that fail: every read throws \<open>ENOENT\<close>.\<close>

definition noFiles :: env where
  "noFiles = \<lparr>readFile = (\<lambda>p. Inl (js ''ENOENT'')), pdfText = (\<lambda>p. Inl (js ''ENOENT'')),
     wordText = (\<lambda>p. Inl (js ''ENOENT''))\<rparr>"

text \<open>A file system in which every path holds the same text.\<close>

definition everyFile :: "jsstring \<Rightarrow> env" where
  "everyFile text = \<lparr>readFile = (\<lambda>p. Inr text), pdfText = (\<lambda>p. Inr text), wordText = (\<lambda>p. Inr text)\<rparr>"

definition textPlain :: jsstring where
  "textPlain = js ''text/plain''"

text \<open>The runtime's lower-casing taken as the identity outside ASCII, for concrete runs.\<close>

definition U0 :: "jsstring \<Rightarrow> jsstring" where
  "U0 s = s"

text \<open>
  The runtime's lower-casing on strings of ASCII code units and U+0130 (capital I with dot
  above): Unicode's unconditional special casing lowers U+0130 to the two code units
  U+0069 U+0307, and \<open>A..Z\<close> to \<open>a..z\<close>.
\<close>

definition lowerDotted :: "jsstring \<Rightarrow> jsstring" where
  "lowerDotted s = concat (map (\<lambda>c. if c = 304 then [105, 775] else [lowerAscii c]) s)"

text \<open>A line of 49 code units, one of them U+0130, that contains \<open>skills\<close>.\<close>

definition dottedLine :: jsstring where
  "dottedLine = js ''skills for the '' @ [304] @ js ''stanbul office and the sales team''"

text \<open>
  The body of an experience section: a job title, two short lines that are no job titles
  and a line of 106 code units.
\<close>

definition longLine :: jsstring where
  "longLine = js ''led the migration of the billing platform to a new architecture and cut the monthly cloud costs by a third''"

definition exampleExperience :: "jsstring list" where
  "exampleExperience = [js ''Senior Engineer'', js ''acme corp'', js ''boston'', longLine]"

text \<open>The documents of the scenarios A, B and D.\<close>

definition scenarioA :: jsstring where
  "scenarioA = js ''Jane Doe\<newline>Software Engineer\<newline>jane@x.com\<newline>555-123-4567\<newline>EDUCATION\<newline>Bachelor of Science\<newline>MIT\<newline>2018-2022''"

definition scenarioB :: jsstring where
  "scenarioB = js ''SKILLS\<newline>Python, Go; Rust | Docker''"

definition scenarioD :: jsstring where
  "scenarioD = js ''PROJECTS\<newline>Project Alpha\<newline>6 months\<newline>Built a thing.''"

section \<open>Descriptions to compare the code with\<close>

text \<open>
  Splitting a text in one pass at every code unit of a set of separators, which is how the
  skills parser is described; the code splits at one separator after the other.
\<close>

primrec splitOnAny :: "(jschar \<Rightarrow> bool) \<Rightarrow> jsstring \<Rightarrow> jsstring list" where
  "splitOnAny P [] = [[]]"
| "splitOnAny P (c # cs) =
     (if P c then [] # splitOnAny P cs
      else (case splitOnAny P cs of [] \<Rightarrow> [[c]] | w # ws \<Rightarrow> (c # w) # ws))"

text \<open>
  The lines of an experience section grouped by entry: each job-title line with the lines
  after it up to the next job-title line; the lines before the first job title belong to
  no entry.
\<close>

primrec titleGroups :: "jsstring list \<Rightarrow> (jsstring \<times> jsstring list) list" where
  "titleGroups [] = []"
| "titleGroups (l # ls) =
     (if isJobTitle l then (l, takeWhile (\<lambda>x. \<not> isJobTitle x) ls) # titleGroups ls
      else titleGroups ls)"

text \<open>The last element of a list of strings, the empty string when there is none.\<close>

definition lastOrEmpty :: "jsstring list \<Rightarrow> jsstring" where
  "lastOrEmpty xs = (case rev xs of [] \<Rightarrow> [] | x # _ \<Rightarrow> x)"

text \<open>
  What a line that is no job title does to the entry in progress: the \<open>if\<close> chain in
  the loop of \<open>parseExperience\<close>.
\<close>

definition absorbLine :: "exp_entry \<Rightarrow> jsstring \<Rightarrow> exp_entry" where
  "absorbLine e line =
     (if isCompanyName line then e\<lparr>companyName := line\<rparr>
      else if isDateRange line then e\<lparr>date := line\<rparr>
      else if isLocation line then e\<lparr>companyLocation := line\<rparr>
      else if length line > 10 then e\<lparr>accomplishment := accomplishment e @ [line]\<rparr>
      else e)"

text \<open>
  The entry of a group as claim C9 describes it: the company name is the last line whose
  length lies strictly between 2 and 100, the date the last date line of length 100 or
  more, the accomplishments the other lines of length 100 or more, the location empty.
\<close>

definition describedEntry :: "jsstring \<times> jsstring list \<Rightarrow> exp_entry" where
  "describedEntry g =
     \<lparr>title = fst g,
      companyName = lastOrEmpty (filter (\<lambda>l. 2 < length l \<and> length l < 100) (snd g)),
      date = lastOrEmpty (filter (\<lambda>l. 100 \<le> length l \<and> isDateRange l) (snd g)),
      companyLocation = [],
      accomplishment = filter (\<lambda>l. 100 \<le> length l \<and> \<not> isDateRange l) (snd g)\<rparr>"

text \<open>The least number of code units a match of a regular expression consumes.\<close>

primrec minlen :: "rx \<Rightarrow> nat" where
  "minlen Eps = 0"
| "minlen (Cls P) = 1"
| "minlen (Rep lo hi P) = lo"
| "minlen (Opt r) = 0"
| "minlen (Seq a b) = minlen a + minlen b"
| "minlen (Alt a b) = min (minlen a) (minlen b)"
| "minlen WordB = 0"
| "minlen Bol = 0"

section \<open>Properties of the normalizer\<close>

lemma trim_Nil [simp]: "trim [] = []"
  by (simp add: trim_def)

lemma trim_placeholders:
  "trim (js ''Your Name'') \<noteq> []"
  "trim (js ''your.email@example.com'') \<noteq> []"
  "trim (js ''123-456-7890'') \<noteq> []"
  "trim (js ''Professional Role'') \<noteq> []"
  "trim (js ''Your City, Country'') \<noteq> []"
  by (simp_all add: trim_def js_def isSpace_def)

lemma js_Cons_nonempty: "js (c # cs) \<noteq> []"
  by (simp add: js_def)

text \<open>
  Claim C8. The normalizer is idempotent: applying \<open>cleanResumeData\<close> to its own output
  gives the same record, for every record.
\<close>

theorem cleanResumeData_idempotent:
  "cleanResumeData (cleanResumeData d) = cleanResumeData d"
  by (simp add: cleanResumeData_def trim_placeholders js_Cons_nonempty conj_commute cong: conj_cong)

lemma extract_plain_direct:
  "\<not> includes_str x (js ''/'') \<Longrightarrow> \<not> includes_str x [92] \<Longrightarrow>
   extractTextContent E x textPlain = Inr x"
  by (simp add: extractTextContent_def textPlain_def js_def)

lemma parse_plain_direct:
  assumes "\<not> includes_str x (js ''/'')" and "\<not> includes_str x [92]" and "trim x \<noteq> []"
  shows "parseResumeContent U E x textPlain = Inr (parseTextToStructuredData U x)"
  using assms by (auto simp add: parseResumeContent_def extract_plain_direct)

lemma parse_returns_cleaned:
  "parseResumeContent U E x m = Inr r \<Longrightarrow> \<exists>d. r = cleanResumeData d"
  by (auto simp add: parseResumeContent_def parseTextToStructuredData_def Let_def
      split: sum.splits if_splits)

lemma parse_Jane:
  "parseResumeContent U0 noFiles (js ''Jane'') textPlain = Inr (parseTextToStructuredData U0 (js ''Jane''))"
  by (rule parse_plain_direct) (simp_all add: js_def trim_def isSpace_def)

text \<open>
  Claim C5. Whenever \<open>parseResumeContent\<close> returns a record, its \<open>name\<close>, \<open>email\<close>,
  \<open>phone\<close>, \<open>role\<close> and \<open>location\<close> are non-empty; the normalizer puts the fixed
  placeholder where the field is empty or blank and leaves the field alone otherwise.
\<close>

theorem required_fields_nonempty:
  "(parseResumeContent U E x m = Inr r \<longrightarrow>
      name r \<noteq> [] \<and> email r \<noteq> [] \<and> phone r \<noteq> [] \<and> role r \<noteq> [] \<and> location r \<noteq> [])
   \<and> name (cleanResumeData d) = (if trim (name d) = [] then js ''Your Name'' else name d)
   \<and> email (cleanResumeData d) = (if trim (email d) = [] then js ''your.email@example.com'' else email d)
   \<and> phone (cleanResumeData d) = (if trim (phone d) = [] then js ''123-456-7890'' else phone d)
   \<and> role (cleanResumeData d) = (if trim (role d) = [] then js ''Professional Role'' else role d)
   \<and> location (cleanResumeData d) = (if trim (location d) = [] then js ''Your City, Country'' else location d)"
proof -
  have ne: "name (cleanResumeData d') \<noteq> [] \<and> email (cleanResumeData d') \<noteq> []
      \<and> phone (cleanResumeData d') \<noteq> [] \<and> role (cleanResumeData d') \<noteq> []
      \<and> location (cleanResumeData d') \<noteq> []" for d'
    by (simp add: cleanResumeData_def js_Cons_nonempty)
  have "parseResumeContent U E x m = Inr r \<longrightarrow>
      name r \<noteq> [] \<and> email r \<noteq> [] \<and> phone r \<noteq> [] \<and> role r \<noteq> [] \<and> location r \<noteq> []"
    using ne parse_returns_cleaned by blast
  moreover have "name (cleanResumeData d) = (if trim (name d) = [] then js ''Your Name'' else name d)"
    by (auto simp add: cleanResumeData_def)
  moreover have "email (cleanResumeData d) = (if trim (email d) = [] then js ''your.email@example.com'' else email d)"
    by (auto simp add: cleanResumeData_def)
  moreover have "phone (cleanResumeData d) = (if trim (phone d) = [] then js ''123-456-7890'' else phone d)"
    by (auto simp add: cleanResumeData_def)
  moreover have "role (cleanResumeData d) = (if trim (role d) = [] then js ''Professional Role'' else role d)"
    by (auto simp add: cleanResumeData_def)
  moreover have "location (cleanResumeData d) = (if trim (location d) = [] then js ''Your City, Country'' else location d)"
    by (auto simp add: cleanResumeData_def)
  ultimately show ?thesis by blast
qed

theorem required_fields_nonempty_witness:
  "parseResumeContent U0 noFiles (js ''Jane'') textPlain = Inr (parseTextToStructuredData U0 (js ''Jane''))
   \<and> name (parseTextToStructuredData U0 (js ''Jane'')) \<noteq> []
   \<and> email (parseTextToStructuredData U0 (js ''Jane'')) \<noteq> []
   \<and> phone (parseTextToStructuredData U0 (js ''Jane'')) \<noteq> []
   \<and> role (parseTextToStructuredData U0 (js ''Jane'')) \<noteq> []
   \<and> location (parseTextToStructuredData U0 (js ''Jane'')) \<noteq> []"
  using parse_Jane
    required_fields_nonempty [of U0 noFiles "js ''Jane''" textPlain "parseTextToStructuredData U0 (js ''Jane'')"]
  by simp

section \<open>The languages field\<close>

lemma languages_basicInfoLine: "languages (basicInfoLine d l) = languages d"
  by (simp add: basicInfoLine_def Let_def split: option.splits)

lemma languages_foldl_basicInfoLine: "languages (foldl basicInfoLine d ls) = languages d"
  by (induction ls arbitrary: d) (simp_all add: languages_basicInfoLine)

lemma languages_roleLoop: "languages (roleLoop U d ls) = languages d"
  by (induction ls) simp_all

lemma languages_extractBasicInfo: "languages (extractBasicInfo U ls d) = languages d"
  by (simp add: extractBasicInfo_def Let_def languages_roleLoop languages_foldl_basicInfoLine
      split: list.splits)

lemma languages_processSectionContent: "languages (processSectionContent U s c d) = languages d"
  by (cases s) (simp_all add: processSectionContent_def)

lemma languages_flushSection: "languages (flushSection U cur c d) = languages d"
  by (simp add: flushSection_def languages_processSectionContent split: option.splits)

lemma languages_sectionStep:
  "languages (snd (snd (sectionStep U st l))) = languages (snd (snd st))"
  by (cases st) (simp add: languages_flushSection split: option.splits)

lemma languages_foldl_sectionStep:
  "languages (snd (snd (foldl (sectionStep U) st ls))) = languages (snd (snd st))"
  by (induction ls arbitrary: st) (simp_all add: languages_sectionStep)

lemma languages_extractSections: "languages (extractSections U ls d) = languages d"
proof -
  obtain cur buf d' where f: "foldl (sectionStep U) (None, [], d) ls = (cur, buf, d')"
    by (cases "foldl (sectionStep U) (None, [], d) ls") auto
  have "languages d' = languages d"
    using languages_foldl_sectionStep [of U "(None, [], d)" ls] f by simp
  then show ?thesis
    by (simp add: extractSections_def f languages_flushSection)
qed

lemma languages_parseText: "languages (parseTextToStructuredData U text) = []"
  by (simp add: parseTextToStructuredData_def Let_def cleanResumeData_def
      languages_extractSections languages_extractBasicInfo emptyResumeData_def)

text \<open>
  Claim C10. The \<open>languages\<close> field of every record the parser returns is empty: it
  starts empty, no step of the extraction writes it, and the normalizer only filters it.
\<close>

theorem languages_always_empty:
  "languages (parseTextToStructuredData U text) = []
   \<and> (parseResumeContent U E x m = Inr r \<longrightarrow> languages r = [])"
  by (auto simp add: parseResumeContent_def languages_parseText split: sum.splits if_splits)

theorem languages_always_empty_witness:
  "parseResumeContent U0 noFiles (js ''Jane'') textPlain = Inr (parseTextToStructuredData U0 (js ''Jane''))
   \<and> languages (parseTextToStructuredData U0 (js ''Jane'')) = []"
  using parse_Jane
    languages_always_empty [of U0 "js ''Jane''" noFiles "js ''Jane''" textPlain
      "parseTextToStructuredData U0 (js ''Jane'')"]
  by simp

section \<open>Evaluation of the scenarios\<close>

lemmas str_defs = js_def trim_def isSpace_def isDigit_def isUpper_def isLower_def isAlpha_def
  isWordChar_def lowerAscii_def upperAscii_def toLowerCase_def oneOf_def

lemmas rx_defs = rxtest_def rxmatch_def seqs_def chr1_def lit_i_def lit_def atWordBoundary_def

lemmas cls_defs = emailRegex_def phoneRegex_def phoneSep_def linkedinRegex_def locationPatterns_def
  isLocationLine_def roleKeywords_def isRoleLine_def startsUpper_def isJobTitle_def isCompanyName_def
  datePatterns_def isDateRange_def isLocation_def degreeKeywords_def isDegree_def
  institutionKeywords_def isInstitution_def isProjectTitle_def extractAchievementTitle_def
  yearRegex_def extractYear_def

lemmas seg_defs = extractSections_def sectionKeywords_def flushSection_def processSectionContent_def

subsection \<open>Scenario A\<close>

lemma scenarioA_lines:
  "textLines scenarioA = map js [''Jane Doe'', ''Software Engineer'', ''jane@x.com'',
     ''555-123-4567'', ''EDUCATION'', ''Bachelor of Science'', ''MIT'', ''2018-2022'']"
  by (simp add: textLines_def scenarioA_def str_defs)

lemma scenarioA_basic:
  "extractBasicInfo U (map js [''Jane Doe'', ''Software Engineer'', ''jane@x.com'',
     ''555-123-4567'', ''EDUCATION'', ''Bachelor of Science'', ''MIT'', ''2018-2022'']) emptyResumeData
   = emptyResumeData\<lparr>name := js ''Jane Doe'', role := js ''Software Engineer'',
       phone := js ''555-123-4567'', email := js ''jane@x.com''\<rparr>"
  by (simp add: extractBasicInfo_def basicInfoLine_def emptyResumeData_def str_defs rx_defs cls_defs)

lemma scenarioA_education:
  "parseEducation U (map js [''Bachelor of Science'', ''MIT'', ''2018-2022'']) =
     [\<lparr>degree = js ''Bachelor of Science'', institution = js ''2018-2022'', duration = [],
       location_edu = []\<rparr>]"
  by (simp add: parseEducation_def str_defs rx_defs cls_defs)

lemma scenarioA_sections:
  "extractSections U (map js [''Jane Doe'', ''Software Engineer'', ''jane@x.com'',
     ''555-123-4567'', ''EDUCATION'', ''Bachelor of Science'', ''MIT'', ''2018-2022'']) d
   = d\<lparr>education := parseEducation U (map js [''Bachelor of Science'', ''MIT'', ''2018-2022''])\<rparr>"
  by (simp add: seg_defs str_defs)

lemma scenarioA_parsed:
  "parseTextToStructuredData U scenarioA =
     \<lparr>name = js ''Jane Doe'', role = js ''Software Engineer'', phone = js ''555-123-4567'',
      email = js ''jane@x.com'', linkedin = [], location = js ''Your City, Country'', summary = [],
      experience = [],
      education = [\<lparr>degree = js ''Bachelor of Science'', institution = js ''2018-2022'',
                    duration = [], location_edu = []\<rparr>],
      achievements = [], skills = [], languages = [], projects = [], courses = [],
      certifications = []\<rparr>"
  unfolding parseTextToStructuredData_def Let_def scenarioA_lines scenarioA_basic scenarioA_sections
    scenarioA_education
  by (simp add: cleanResumeData_def emptyResumeData_def str_defs)

lemma scenarioA_direct:
  "parseResumeContent U E scenarioA textPlain = Inr (parseTextToStructuredData U scenarioA)"
  by (rule parse_plain_direct) (simp_all add: scenarioA_def str_defs)

lemma scenarioA_classes:
  "\<not> isInstitution U (js ''MIT'')" "\<not> isDateRange (js ''MIT'')" "\<not> isLocation (js ''MIT'')"
  "isInstitution U (js ''2018-2022'')"
  by (simp_all add: str_defs rx_defs cls_defs)

text \<open>
  Claim C1, as the code has it. For the document of scenario A, \<open>parseResumeContent\<close>
  returns a record with the name \<open>Jane Doe\<close>, the email \<open>jane@x.com\<close>, the phone
  \<open>555-123-4567\<close> and exactly one education entry, of degree \<open>Bachelor of Science\<close>,
  institution \<open>2018-2022\<close>, empty duration and empty location. The line \<open>MIT\<close> is
  dropped: it is no institution (no institution keyword, and a length of 3 where more
  than 5 is asked), no date range and no location (a length of more than 3 is asked).
  The line \<open>2018-2022\<close> is an institution by its length, and \<open>isInstitution\<close> is asked
  before \<open>isDateRange\<close>.
\<close>

theorem scenarioA_result:
  "parseResumeContent U E scenarioA textPlain = Inr (parseTextToStructuredData U scenarioA)
   \<and> name (parseTextToStructuredData U scenarioA) = js ''Jane Doe''
   \<and> email (parseTextToStructuredData U scenarioA) = js ''jane@x.com''
   \<and> phone (parseTextToStructuredData U scenarioA) = js ''555-123-4567''
   \<and> education (parseTextToStructuredData U scenarioA) =
       [\<lparr>degree = js ''Bachelor of Science'', institution = js ''2018-2022'', duration = [],
         location_edu = []\<rparr>]
   \<and> \<not> isInstitution U (js ''MIT'') \<and> \<not> isDateRange (js ''MIT'') \<and> \<not> isLocation (js ''MIT'')
   \<and> isInstitution U (js ''2018-2022'')"
  by (simp add: scenarioA_direct scenarioA_parsed scenarioA_classes)

text \<open>
  The education entry that claim C1 states, with \<open>MIT\<close> as institution and \<open>2018-2022\<close>
  as duration, is not what the parser returns for the document of scenario A.
\<close>

theorem scenarioA_counterexample:
  "\<not> (\<exists>r. parseResumeContent U0 noFiles scenarioA textPlain = Inr r
        \<and> name r = js ''Jane Doe'' \<and> email r = js ''jane@x.com'' \<and> phone r = js ''555-123-4567''
        \<and> education r = [\<lparr>degree = js ''Bachelor of Science'', institution = js ''MIT'',
                           duration = js ''2018-2022'', location_edu = []\<rparr>])"
  by (simp add: scenarioA_direct scenarioA_parsed js_def)

subsection \<open>Scenario D\<close>

lemma scenarioD_lines:
  "textLines scenarioD = map js [''PROJECTS'', ''Project Alpha'', ''6 months'', ''Built a thing.'']"
  by (simp add: textLines_def scenarioD_def str_defs)

lemma scenarioD_projects:
  "parseProjects (map js [''Project Alpha'', ''6 months'', ''Built a thing.'']) =
     [\<lparr>title_proj = js ''Project Alpha'', description = [], duration_proj = []\<rparr>,
      \<lparr>title_proj = js ''Built a thing.'', description = [], duration_proj = []\<rparr>]"
  by (simp add: parseProjects_def str_defs rx_defs cls_defs)

lemma scenarioD_sections:
  "extractSections U (map js [''PROJECTS'', ''Project Alpha'', ''6 months'', ''Built a thing.'']) d
   = d\<lparr>projects := parseProjects (map js [''Project Alpha'', ''6 months'', ''Built a thing.''])\<rparr>"
  by (simp add: seg_defs str_defs)

lemma projects_extractBasicInfo: "projects (extractBasicInfo U ls emptyResumeData) = []"
proof -
  have a: "projects (basicInfoLine d l) = projects d" for d l
    by (simp add: basicInfoLine_def Let_def split: option.splits)
  have b: "projects (foldl basicInfoLine d xs) = projects d" for d xs
    by (induction xs arbitrary: d) (simp_all add: a)
  have c: "projects (roleLoop U d xs) = projects d" for d xs
    by (induction xs) simp_all
  show ?thesis
    by (simp add: extractBasicInfo_def Let_def b c emptyResumeData_def split: list.splits)
qed

lemma scenarioD_parsed:
  "projects (parseTextToStructuredData U scenarioD) =
     [\<lparr>title_proj = js ''Project Alpha'', description = [], duration_proj = []\<rparr>,
      \<lparr>title_proj = js ''Built a thing.'', description = [], duration_proj = []\<rparr>]"
  unfolding parseTextToStructuredData_def Let_def scenarioD_lines scenarioD_sections scenarioD_projects
  by (simp add: cleanResumeData_def str_defs)

lemma scenarioD_classes:
  "\<not> isProjectTitle (js ''6 months'')" "\<not> isDateRange (js ''6 months'')"
  "length (js ''6 months'') = 8" "isProjectTitle (js ''Built a thing.'')"
  by (simp_all add: str_defs rx_defs cls_defs)

text \<open>
  Claim C3, as the code has it. For the body \<open>Project Alpha\<close>, \<open>6 months\<close>,
  \<open>Built a thing.\<close> under a \<open>PROJECTS\<close> header the parser produces two project entries,
  titled \<open>Project Alpha\<close> and \<open>Built a thing.\<close>, each with empty description and empty
  duration: \<open>6 months\<close> is no title, matches no date pattern and has 8 code units, so it
  is dropped, and \<open>Built a thing.\<close> passes \<open>isProjectTitle\<close>, so it starts an entry.
\<close>

theorem scenarioD_result:
  "parseProjects (map js [''Project Alpha'', ''6 months'', ''Built a thing.'']) =
     [\<lparr>title_proj = js ''Project Alpha'', description = [], duration_proj = []\<rparr>,
      \<lparr>title_proj = js ''Built a thing.'', description = [], duration_proj = []\<rparr>]
   \<and> projects (parseTextToStructuredData U scenarioD) =
     [\<lparr>title_proj = js ''Project Alpha'', description = [], duration_proj = []\<rparr>,
      \<lparr>title_proj = js ''Built a thing.'', description = [], duration_proj = []\<rparr>]
   \<and> \<not> isProjectTitle (js ''6 months'') \<and> \<not> isDateRange (js ''6 months'')
   \<and> length (js ''6 months'') = 8 \<and> isProjectTitle (js ''Built a thing.'')"
  using scenarioD_projects scenarioD_parsed scenarioD_classes by blast

text \<open>The single project entry that claim C3 states is not what the parser produces.\<close>

theorem scenarioD_counterexample:
  "parseProjects (map js [''Project Alpha'', ''6 months'', ''Built a thing.'']) \<noteq>
     [\<lparr>title_proj = js ''Project Alpha'', description = js ''Built a thing.'',
       duration_proj = js ''6 months''\<rparr>]
   \<and> projects (parseTextToStructuredData U0 scenarioD) \<noteq>
     [\<lparr>title_proj = js ''Project Alpha'', description = js ''Built a thing.'',
       duration_proj = js ''6 months''\<rparr>]"
  using scenarioD_projects scenarioD_parsed [of U0] by simp

subsection \<open>Scenario B and the skills parser\<close>

lemma splitOnAny_nonempty: "splitOnAny P s \<noteq> []"
  by (induction s) (auto split: list.splits)

lemma split_is_splitOnAny: "split sep s = splitOnAny (\<lambda>c. c = sep) s"
  by (induction s) auto

lemma splitOnAny_twice:
  "concat (map (splitOnAny Q) (splitOnAny P s)) = splitOnAny (\<lambda>c. P c \<or> Q c) s"
proof (induction s)
  case Nil
  then show ?case by simp
next
  case (Cons c cs)
  obtain w ws where w: "splitOnAny P cs = w # ws"
    using splitOnAny_nonempty [of P cs] by (cases "splitOnAny P cs") auto
  obtain v vs where v: "splitOnAny Q w = v # vs"
    using splitOnAny_nonempty [of Q w] by (cases "splitOnAny Q w") auto
  from Cons w v show ?case by (auto split: list.splits)
qed

lemma foldl_split_separators:
  "foldl (\<lambda>items sep. concat (map (split sep) items)) (splitOnAny P s) seps
   = splitOnAny (\<lambda>c. P c \<or> c \<in> set seps) s"
proof (induction seps arbitrary: P)
  case Nil
  then show ?case by simp
next
  case (Cons a seps)
  have "concat (map (split a) (splitOnAny P s)) = splitOnAny (\<lambda>c. P c \<or> c = a) s"
    by (simp add: split_is_splitOnAny [abs_def] splitOnAny_twice)
  then show ?case
    using Cons.IH [of "\<lambda>c. P c \<or> c = a"] by simp
qed

lemma splitOnAny_never: "splitOnAny (\<lambda>c. False) s = [s]"
  by (induction s) auto

lemma parseSkills_one_pass:
  "parseSkills content =
     filter (\<lambda>t. 2 \<le> length t \<and> length t \<le> 49)
       (map trim (splitOnAny (\<lambda>c. c \<in> set separators) (join (js '' '') content)))"
proof -
  have "foldl (\<lambda>items sep. concat (map (split sep) items)) [join (js '' '') content] separators
      = splitOnAny (\<lambda>c. c \<in> set separators) (join (js '' '') content)"
    using foldl_split_separators [of "\<lambda>c. False" "join (js '' '') content" separators]
    by (simp add: splitOnAny_never)
  moreover have "(\<lambda>t::jsstring. length t > 1 \<and> length t < 50) = (\<lambda>t. 2 \<le> length t \<and> length t \<le> 49)"
    by auto
  ultimately show ?thesis
    by (simp add: parseSkills_def Let_def)
qed

lemma scenarioB_lines:
  "textLines scenarioB = map js [''SKILLS'', ''Python, Go; Rust | Docker'']"
  by (simp add: textLines_def scenarioB_def str_defs)

lemma scenarioB_skills:
  "parseSkills [js ''Python, Go; Rust | Docker''] = map js [''Python'', ''Go'', ''Rust'', ''Docker'']"
  by (simp add: parseSkills_def separators_def str_defs)

lemma scenarioB_sections:
  "extractSections U (map js [''SKILLS'', ''Python, Go; Rust | Docker'']) d
   = d\<lparr>skills := parseSkills [js ''Python, Go; Rust | Docker'']\<rparr>"
  by (simp add: seg_defs str_defs)

lemma scenarioB_parsed:
  "skills (parseTextToStructuredData U scenarioB) = map js [''Python'', ''Go'', ''Rust'', ''Docker'']"
  unfolding parseTextToStructuredData_def Let_def scenarioB_lines scenarioB_sections scenarioB_skills
  by (simp add: cleanResumeData_def str_defs)

text \<open>
  Claim C7. For the lines \<open>SKILLS\<close> and \<open>Python, Go; Rust | Docker\<close> the skills parser
  produces \<open>Python\<close>, \<open>Go\<close>, \<open>Rust\<close>, \<open>Docker\<close>, in this order, and so does the whole
  parser in the \<open>skills\<close> field. In general the skills are the pieces of the joined section
  text between code units of \<open>separators\<close> (\<open>,\<close> U+2022 U+00B7 \<open>|\<close> newline \<open>;\<close>), trimmed,
  of those whose length is at least 2 and at most 49.
\<close>

theorem scenarioB_result:
  "parseSkills [js ''Python, Go; Rust | Docker''] = map js [''Python'', ''Go'', ''Rust'', ''Docker'']
   \<and> skills (parseTextToStructuredData U scenarioB) = map js [''Python'', ''Go'', ''Rust'', ''Docker'']
   \<and> parseSkills content =
       filter (\<lambda>t. 2 \<le> length t \<and> length t \<le> 49)
         (map trim (splitOnAny (\<lambda>c. c \<in> set separators) (join (js '' '') content)))
   \<and> separators = [of_char CHR '','', 8226, 183, of_char CHR ''|'', of_char CHR ''\<newline>'', of_char CHR '';'']"
  using scenarioB_skills scenarioB_parsed parseSkills_one_pass by (simp add: separators_def)

section \<open>Text extraction\<close>

lemma trim_eq_Nil: "trim s = [] \<longleftrightarrow> list_all isSpace s"
proof -
  have "dropWhile isSpace (rev (dropWhile isSpace s)) = [] \<longleftrightarrow> dropWhile isSpace s = []"
  proof
    assume a: "dropWhile isSpace (rev (dropWhile isSpace s)) = []"
    show "dropWhile isSpace s = []"
    proof (rule ccontr)
      assume n: "dropWhile isSpace s \<noteq> []"
      then have "\<not> isSpace (hd (dropWhile isSpace s))" by (rule hd_dropWhile)
      moreover have "hd (dropWhile isSpace s) \<in> set (rev (dropWhile isSpace s))"
        using n by simp
      ultimately show False using a by (simp del: set_rev)
    qed
  next
    assume "dropWhile isSpace s = []"
    then show "dropWhile isSpace (rev (dropWhile isSpace s)) = []"
      by (simp only: rev.simps dropWhile.simps)
  qed
  then show ?thesis
    by (simp add: trim_def list_all_iff)
qed

lemma split_all: "list_all (list_all P) (split sep s) \<Longrightarrow> P sep \<Longrightarrow> list_all P s"
  by (induction s) (auto split: list.splits if_splits)

lemma all_split: "list_all P s \<Longrightarrow> list_all (list_all P) (split sep s)"
  by (induction s) (auto split: list.splits if_splits)

text \<open>No line is left exactly when the whole text is blank.\<close>

lemma textLines_Nil_iff: "textLines t = [] \<longleftrightarrow> trim t = []"
proof -
  have "textLines t = [] \<longleftrightarrow> list_all (list_all isSpace) (split 10 t)"
    by (simp add: textLines_def filter_empty_conv trim_eq_Nil list_all_iff)
  also have "\<dots> \<longleftrightarrow> list_all isSpace t"
    using split_all [of isSpace 10 t] all_split [of isSpace t 10] by (auto simp add: isSpace_def)
  finally show ?thesis by (simp add: trim_eq_Nil)
qed

lemma parse_after_extract:
  "extractTextContent E x m = Inr t \<Longrightarrow>
   parseResumeContent U E x m =
     (if trim t = [] then Inl (Error (js ''No readable content found in the file''))
      else Inr (parseTextToStructuredData U t))"
  by (auto simp add: parseResumeContent_def)

text \<open>
  Claim C6. On the empty text, and whenever the extracted text leaves no non-empty line,
  \<open>parseResumeContent\<close> throws the error \<open>No readable content found in the file\<close> and
  returns no record.
\<close>

theorem empty_content_error:
  "parseResumeContent U E [] textPlain = Inl (Error (js ''No readable content found in the file''))
   \<and> (extractTextContent E x m = Inr t \<and> textLines t = [] \<longrightarrow>
        parseResumeContent U E x m = Inl (Error (js ''No readable content found in the file'')))"
proof -
  have "extractTextContent E [] textPlain = Inr []"
    by (rule extract_plain_direct) (simp_all add: js_def)
  then have "parseResumeContent U E [] textPlain
      = Inl (Error (js ''No readable content found in the file''))"
    by (simp add: parse_after_extract)
  moreover have "extractTextContent E x m = Inr t \<and> textLines t = [] \<longrightarrow>
        parseResumeContent U E x m = Inl (Error (js ''No readable content found in the file''))"
    by (simp add: parse_after_extract textLines_Nil_iff)
  ultimately show ?thesis by blast
qed

theorem empty_content_error_witness:
  "extractTextContent (everyFile (js '' \<newline>  '')) (js ''/tmp/cv.pdf'') (js ''application/pdf'')
     = Inr (js '' \<newline>  '')
   \<and> textLines (js '' \<newline>  '') = []
   \<and> parseResumeContent U0 (everyFile (js '' \<newline>  '')) (js ''/tmp/cv.pdf'') (js ''application/pdf'')
     = Inl (Error (js ''No readable content found in the file''))"
proof -
  have a: "extractTextContent (everyFile (js '' \<newline>  '')) (js ''/tmp/cv.pdf'') (js ''application/pdf'')
     = Inr (js '' \<newline>  '')"
    by (simp add: extractTextContent_def extractFromPDF_def everyFile_def)
  have b: "textLines (js '' \<newline>  '') = []"
    by (simp add: textLines_def str_defs)
  show ?thesis
    using a b empty_content_error [of U0 "everyFile (js '' \<newline>  '')" "js ''/tmp/cv.pdf''"
        "js ''application/pdf''" "js '' \<newline>  ''"]
    by simp
qed







section \<open>The experience parser\<close>

subsection \<open>A match is at least as long as its pattern asks\<close>

lemma repC_length:
  "(p', s') \<in> set (repC P lo hi p s) \<Longrightarrow> length s' + lo \<le> length s"
proof (induction s arbitrary: lo hi p)
  case Nil
  then show ?case by (auto split: if_splits)
next
  case (Cons c cs)
  from Cons.prems have
    "(P c \<and> hi \<noteq> Some 0 \<and> (p', s') \<in> set (repC P (lo - 1) (map_option (\<lambda>h. h - 1) hi) (Some c) cs))
     \<or> (lo = 0 \<and> s' = c # cs)"
    by (auto split: if_splits)
  then show ?case
  proof
    assume "P c \<and> hi \<noteq> Some 0 \<and> (p', s') \<in> set (repC P (lo - 1) (map_option (\<lambda>h. h - 1) hi) (Some c) cs)"
    then have "length s' + (lo - 1) \<le> length cs" using Cons.IH by blast
    then show ?thesis by simp
  next
    assume "lo = 0 \<and> s' = c # cs"
    then show ?thesis by simp
  qed
qed

lemma rxm_length:
  "(p', s') \<in> set (rxm r (p, s)) \<Longrightarrow> length s' + minlen r \<le> length s"
proof (induction r arbitrary: p s p' s')
  case Eps
  then show ?case by simp
next
  case (Cls P)
  then show ?case by (auto split: list.splits if_splits)
next
  case (Rep lo hi P)
  then show ?case using repC_length by simp
next
  case (Opt r)
  then show ?case by (fastforce)
next
  case (Seq a b)
  from Seq.prems obtain q t where m: "(q, t) \<in> set (rxm a (p, s))" and n: "(p', s') \<in> set (rxm b (q, t))"
    by auto
  have "length t + minlen a \<le> length s" using Seq.IH(1) [OF m] .
  moreover have "length s' + minlen b \<le> length t" using Seq.IH(2) [OF n] .
  ultimately show ?case by simp
next
  case (Alt a b)
  then show ?case by fastforce
next
  case WordB
  then show ?case by (auto split: if_splits)
next
  case Bol
  then show ?case by (auto split: if_splits)
qed

lemma rxsearch_length: "rxsearch r p s = Some m \<Longrightarrow> minlen r \<le> length s"
proof (induction s arbitrary: p)
  case Nil
  then obtain st where "st \<in> set (rxm r (p, []))"
    by (auto split: list.splits)
  then show ?case using rxm_length [of "fst st" "snd st" r p "[]"] by simp
next
  case (Cons c cs)
  show ?case
  proof (cases "rxm r (p, c # cs)")
    case Nil
    with Cons.prems have "rxsearch r (Some c) cs = Some m" by simp
    then have "minlen r \<le> length cs" by (rule Cons.IH)
    then show ?thesis by simp
  next
    case (Cons st sts)
    then have "st \<in> set (rxm r (p, c # cs))" by simp
    then show ?thesis using rxm_length [of "fst st" "snd st" r p "c # cs"] by simp
  qed
qed

lemma rxtest_length: "rxtest r s \<Longrightarrow> minlen r \<le> length s"
  by (auto simp add: rxtest_def rxmatch_def dest: rxsearch_length)

lemma isDateRange_length: "isDateRange l \<Longrightarrow> 7 \<le> length l"
proof -
  assume "isDateRange l"
  then obtain r where r: "r \<in> set datePatterns" and t: "rxtest r l"
    by (auto simp add: isDateRange_def list_ex_iff)
  have "7 \<le> minlen r"
    using r by (auto simp add: datePatterns_def seqs_def chr1_def lit_i_def)
  then show ?thesis using rxtest_length [OF t] by simp
qed

subsection \<open>The loop of the experience parser, entry by entry\<close>

lemma title_foldl_absorb: "title (foldl absorbLine e body) = title e"
  by (induction body arbitrary: e) (simp_all add: absorbLine_def)

lemma not_company_location: "\<not> isCompanyName l \<Longrightarrow> \<not> isLocation l"
  by (auto simp add: isCompanyName_def isLocation_def)

lemma companyLocation_foldl_absorb: "companyLocation (foldl absorbLine e body) = companyLocation e"
  by (induction body arbitrary: e) (simp_all add: absorbLine_def not_company_location)

lemma companyName_foldl_absorb:
  "companyName (foldl absorbLine e body) =
     (if filter isCompanyName body = [] then companyName e else last (filter isCompanyName body))"
  by (induction body arbitrary: e) (simp_all add: absorbLine_def)

lemma date_foldl_absorb:
  "date (foldl absorbLine e body) =
     (if filter (\<lambda>l. \<not> isCompanyName l \<and> isDateRange l) body = [] then date e
      else last (filter (\<lambda>l. \<not> isCompanyName l \<and> isDateRange l) body))"
  by (induction body arbitrary: e) (simp_all add: absorbLine_def not_company_location)

lemma accomplishment_foldl_absorb:
  "accomplishment (foldl absorbLine e body) =
     accomplishment e @ filter (\<lambda>l. \<not> isCompanyName l \<and> \<not> isDateRange l \<and> length l > 10) body"
  by (induction body arbitrary: e) (simp_all add: absorbLine_def not_company_location)

lemma lastOrEmpty_eq: "lastOrEmpty xs = (if xs = [] then [] else last xs)"
  by (cases xs rule: rev_cases) (simp_all add: lastOrEmpty_def)

lemma company_pred: "isCompanyName = (\<lambda>l. 2 < length l \<and> length l < 100)"
  by (auto simp add: isCompanyName_def fun_eq_iff)

lemma date_pred:
  "(\<lambda>l. \<not> isCompanyName l \<and> isDateRange l) = (\<lambda>l. 100 \<le> length l \<and> isDateRange l)"
  using isDateRange_length by (fastforce simp add: isCompanyName_def fun_eq_iff)

lemma accomplishment_pred:
  "(\<lambda>l. \<not> isCompanyName l \<and> \<not> isDateRange l \<and> length l > 10) = (\<lambda>l. 100 \<le> length l \<and> \<not> isDateRange l)"
  by (auto simp add: isCompanyName_def fun_eq_iff)

lemma fresh_entry_described:
  "foldl absorbLine \<lparr>title = t, companyName = [], date = [], companyLocation = [], accomplishment = []\<rparr> body
   = describedEntry (t, body)"
  by (rule exp_entry.equality)
     (simp_all add: describedEntry_def title_foldl_absorb companyLocation_foldl_absorb
        companyName_foldl_absorb date_foldl_absorb accomplishment_foldl_absorb lastOrEmpty_eq
        company_pred [symmetric] date_pred [symmetric] accomplishment_pred [symmetric])

lemma parseExperience_loop_groups:
  "parseExperience_loop acc cur ls =
     acc @ (case cur of None \<Rightarrow> [] | Some e \<Rightarrow> [foldl absorbLine e (takeWhile (\<lambda>x. \<not> isJobTitle x) ls)])
         @ map describedEntry (titleGroups ls)"
proof (induction ls arbitrary: acc cur)
  case Nil
  then show ?case by (simp split: option.splits)
next
  case (Cons l ls)
  show ?case
  proof (cases "isJobTitle l")
    case True
    then show ?thesis
      by (simp add: Cons.IH fresh_entry_described split: option.splits)
  next
    case False
    then show ?thesis
      by (simp add: Cons.IH absorbLine_def split: option.splits)
  qed
qed

lemma parseExperience_described:
  "parseExperience content = map describedEntry (titleGroups content)"
  by (simp add: parseExperience_def parseExperience_loop_groups)

lemma described_fields:
  assumes "e \<in> set (map describedEntry gs)"
  shows "companyLocation e = [] \<and> (date e = [] \<or> 100 \<le> length (date e))
         \<and> (\<forall>a \<in> set (accomplishment e). 100 \<le> length a)"
proof -
  from assms obtain g where e: "e = describedEntry g" by auto
  have "date e = [] \<or> 100 \<le> length (date e)"
  proof (cases "filter (\<lambda>l. 100 \<le> length l \<and> isDateRange l) (snd g) = []")
    case True
    then show ?thesis by (simp add: e describedEntry_def lastOrEmpty_eq)
  next
    case False
    then have "last (filter (\<lambda>l. 100 \<le> length l \<and> isDateRange l) (snd g))
        \<in> set (filter (\<lambda>l. 100 \<le> length l \<and> isDateRange l) (snd g))"
      by (rule last_in_set)
    then show ?thesis using False by (simp add: e describedEntry_def lastOrEmpty_eq)
  qed
  then show ?thesis by (simp add: e describedEntry_def)
qed

lemma example_experience:
  "parseExperience exampleExperience =
     [\<lparr>title = js ''Senior Engineer'', companyName = js ''boston'', date = [],
       companyLocation = [], accomplishment = [longLine]\<rparr>]"
  by (simp add: parseExperience_def exampleExperience_def longLine_def str_defs rx_defs cls_defs)

lemma example_classes:
  "\<not> isCompanyName (js ''ab'')" "isLocation (js ''boston'')"
  by (simp_all add: str_defs rx_defs cls_defs)

text \<open>
  Claim C9. Every entry of \<open>parseExperience\<close> has an empty \<open>companyLocation\<close>: a line
  reaches \<open>isLocation\<close> only when \<open>isCompanyName\<close> rejects it, that is with a length of
  at most 2 or at least 100, and \<open>isLocation\<close> asks for a length strictly between 3 and
  50. A date and an accomplishment are lines of length 100 or more, and the company
  name is the last line of the entry's group whose length lies strictly between 2
  and 100 (the groups being the job-title lines, each with the lines up to the next one).
\<close>

theorem experience_entries:
  "parseExperience content = map describedEntry (titleGroups content)
   \<and> (\<forall>e \<in> set (parseExperience content).
        companyLocation e = []
        \<and> (date e = [] \<or> 100 \<le> length (date e))
        \<and> (\<forall>a \<in> set (accomplishment e). 100 \<le> length a))
   \<and> (\<not> isCompanyName l \<longrightarrow> \<not> isLocation l)
   \<and> isCompanyName l = (2 < length l \<and> length l < 100)
   \<and> (isLocation l \<longrightarrow> 3 < length l \<and> length l < 50)"
proof -
  have "\<forall>e \<in> set (parseExperience content).
        companyLocation e = []
        \<and> (date e = [] \<or> 100 \<le> length (date e))
        \<and> (\<forall>a \<in> set (accomplishment e). 100 \<le> length a)"
    using described_fields [of _ "titleGroups content"]
    by (simp only: parseExperience_described) blast
  moreover have "isCompanyName l = (2 < length l \<and> length l < 100)"
    by (simp add: isCompanyName_def)
  moreover have "isLocation l \<longrightarrow> 3 < length l \<and> length l < 50"
    by (simp add: isLocation_def)
  ultimately show ?thesis
    using parseExperience_described [of content] not_company_location [of l] by blast
qed

theorem experience_entries_witness:
  "parseExperience exampleExperience =
     [\<lparr>title = js ''Senior Engineer'', companyName = js ''boston'', date = [],
       companyLocation = [], accomplishment = [longLine]\<rparr>]
   \<and> map describedEntry (titleGroups exampleExperience) =
     [\<lparr>title = js ''Senior Engineer'', companyName = js ''boston'', date = [],
       companyLocation = [], accomplishment = [longLine]\<rparr>]
   \<and> 100 \<le> length longLine
   \<and> \<not> isCompanyName (js ''ab'') \<and> \<not> isLocation (js ''ab'')
   \<and> isLocation (js ''boston'') \<and> 3 < length (js ''boston'') \<and> length (js ''boston'') < 50"
  using example_experience example_classes
    experience_entries [of exampleExperience "js ''ab''"]
    experience_entries [of exampleExperience "js ''boston''"]
  by simp

section \<open>The section segmenter\<close>

lemma list_ex_conj_const: "list_ex (\<lambda>k. P k \<and> Q) ks = (list_ex P ks \<and> Q)"
  by (induction ks) auto

lemma detect_Cons:
  "detectSectionHeader l ((s, ks) # rest) =
     (if list_ex (includes_str l) ks \<and> length l < 50 then Some s else detectSectionHeader l rest)"
  by (simp add: list_ex_conj_const)

lemma detect_find:
  "detectSectionHeader l kw =
     (if length l < 50 then map_option fst (find (\<lambda>(s, ks). list_ex (includes_str l) ks) kw) else None)"
  by (induction kw) (auto simp add: detect_Cons simp del: detectSectionHeader.simps(2))

lemma detect_iff:
  "(detectSectionHeader l kw \<noteq> None) =
     (list_ex (\<lambda>(s, ks). list_ex (includes_str l) ks) kw \<and> length l < 50)"
  by (induction kw) (auto simp add: detect_Cons simp del: detectSectionHeader.simps(2))

lemma step_header:
  "detectSectionHeader (toLowerCase U line) sectionKeywords = Some s \<Longrightarrow>
   sectionStep U (cur, buf, d) line =
     (Some s, [], case cur of None \<Rightarrow> d | Some c \<Rightarrow> if buf = [] then d else processSectionContent U c buf d)"
  by (simp add: flushSection_def split: option.splits)

lemma step_body:
  "detectSectionHeader (toLowerCase U line) sectionKeywords = None \<Longrightarrow>
   sectionStep U (cur, buf, d) line = (cur, (if cur = None then buf else buf @ [line]), d)"
  by simp

lemma foldl_no_header_None:
  "\<forall>b \<in> set body. detectSectionHeader (toLowerCase U b) sectionKeywords = None \<Longrightarrow>
   foldl (sectionStep U) (None, buf, d) body = (None, buf, d)"
  by (induction body) simp_all

lemma foldl_no_header_Some:
  "\<forall>b \<in> set body. detectSectionHeader (toLowerCase U b) sectionKeywords = None \<Longrightarrow>
   foldl (sectionStep U) (Some c, buf, d) body = (Some c, buf @ body, d)"
  by (induction body arbitrary: buf) simp_all

lemma foldl_no_header:
  "\<forall>b \<in> set body. detectSectionHeader (toLowerCase U b) sectionKeywords = None \<Longrightarrow>
   foldl (sectionStep U) (cur, buf, d) body = (cur, (if cur = None then buf else buf @ body), d)"
  by (cases cur) (simp_all add: foldl_no_header_None foldl_no_header_Some)

lemma extractSections_no_header:
  "\<forall>b \<in> set ls. detectSectionHeader (toLowerCase U b) sectionKeywords = None \<Longrightarrow>
   extractSections U ls d = d"
  by (simp add: extractSections_def foldl_no_header flushSection_def)

lemma extractSections_header_body:
  assumes h: "detectSectionHeader (toLowerCase U h) sectionKeywords = Some s"
    and body: "\<forall>b \<in> set body. detectSectionHeader (toLowerCase U b) sectionKeywords = None"
  shows "extractSections U (pre @ h # body) d =
     (if body = [] then extractSections U pre d
      else processSectionContent U s body (extractSections U pre d))"
proof -
  obtain c b d' where f: "foldl (sectionStep U) (None, [], d) pre = (c, b, d')"
    by (cases "foldl (sectionStep U) (None, [], d) pre") auto
  have p: "extractSections U pre d = flushSection U c b d'"
    by (simp add: extractSections_def f)
  have "sectionStep U (c, b, d') h = (Some s, [], flushSection U c b d')"
    using h by simp
  then have "foldl (sectionStep U) (None, [], d) (pre @ h # body)
      = foldl (sectionStep U) (Some s, [], flushSection U c b d') body"
    by (simp add: f)
  also have "\<dots> = (Some s, body, flushSection U c b d')"
    using foldl_no_header [OF body, of "Some s" "[]" "flushSection U c b d'"] by simp
  finally have w: "foldl (sectionStep U) (None, [], d) (pre @ h # body)
      = (Some s, body, flushSection U c b d')" .
  show ?thesis
    unfolding extractSections_def w f by (simp add: flushSection_def)
qed

lemma example_header:
  "detectSectionHeader (toLowerCase U0 (js ''Education & Training'')) sectionKeywords = Some Education"
  by (simp add: sectionKeywords_def str_defs)

lemma example_body:
  "detectSectionHeader (toLowerCase U0 (js ''Python'')) sectionKeywords = None"
  by (simp add: sectionKeywords_def str_defs)

lemma example_degree_line:
  "detectSectionHeader (toLowerCase U0 (js ''Bachelor of Science'')) sectionKeywords = None"
  by (simp add: sectionKeywords_def str_defs)

lemma example_skills_section:
  "extractSections U0 [js ''SKILLS'', js ''Python, Go''] emptyResumeData
   = emptyResumeData\<lparr>skills := [js ''Python'', js ''Go'']\<rparr>"
  by (simp add: seg_defs parseSkills_def separators_def str_defs)

lemma example_education:
  "parseEducation U0 [js ''Bachelor of Science''] =
     [\<lparr>degree = js ''Bachelor of Science'', institution = [], duration = [], location_edu = []\<rparr>]"
  by (simp add: parseEducation_def str_defs cls_defs)

lemma dottedLine_lower:
  "toLowerCase lowerDotted dottedLine
   = js ''skills for the i'' @ [775] @ js ''stanbul office and the sales team''"
  by (simp add: dottedLine_def lowerDotted_def str_defs)

lemma dottedLine_no_header:
  "detectSectionHeader (toLowerCase lowerDotted dottedLine) sectionKeywords = None"
  by (simp add: detect_find dottedLine_lower js_def)

lemma dotted_next_line:
  "detectSectionHeader (toLowerCase lowerDotted (js ''Python, Go'')) sectionKeywords = None"
  by (simp add: sectionKeywords_def str_defs)

text \<open>
  Claim C4, as the code has it. A line is a section header exactly when its lower-cased
  form contains a keyword of some section of the table and this lower-cased form has
  fewer than 50 code units (which is the length of the line itself when the line is
  ASCII); the section detected is the first one of the table, in the order summary,
  experience, education, skills, achievements, projects, certifications, courses, with
  such a keyword. After the lines \<open>pre\<close>, a header of section \<open>s\<close> and a body without
  headers, \<open>extractSections\<close> has done what it does on \<open>pre\<close> alone, the buffer of the
  section that was current included, and has then given the body to the entry parser of
  \<open>s\<close>, unless the body is empty; lines without a header before them change nothing.
  Each section's entry parser writes the field of its section. In the loop, a header
  makes its section current and resets the buffer after the flush (nothing is flushed
  without a current section or with an empty buffer), and any other line joins the
  buffer when there is a current section.
\<close>

theorem section_header_step:
  "(detectSectionHeader l sectionKeywords \<noteq> None) =
     (list_ex (\<lambda>(s, ks). list_ex (includes_str l) ks) sectionKeywords \<and> length l < 50)
   \<and> detectSectionHeader l sectionKeywords =
     (if length l < 50
      then map_option fst (find (\<lambda>(s, ks). list_ex (includes_str l) ks) sectionKeywords)
      else None)
   \<and> map fst sectionKeywords =
     [Summary, Experience, Education, Skills, Achievements, Projects, Certifications, Courses]
   \<and> (detectSectionHeader (toLowerCase U h) sectionKeywords = Some s
        \<and> (\<forall>b \<in> set body. detectSectionHeader (toLowerCase U b) sectionKeywords = None) \<longrightarrow>
        extractSections U (pre @ h # body) d =
          (if body = [] then extractSections U pre d
           else processSectionContent U s body (extractSections U pre d)))
   \<and> ((\<forall>b \<in> set ls. detectSectionHeader (toLowerCase U b) sectionKeywords = None) \<longrightarrow>
        extractSections U ls d = d)
   \<and> processSectionContent U Summary content d = d\<lparr>summary := trim (join (js '' '') content)\<rparr>
   \<and> processSectionContent U Experience content d = d\<lparr>experience := parseExperience content\<rparr>
   \<and> processSectionContent U Education content d = d\<lparr>education := parseEducation U content\<rparr>
   \<and> processSectionContent U Skills content d = d\<lparr>skills := parseSkills content\<rparr>
   \<and> processSectionContent U Achievements content d = d\<lparr>achievements := parseAchievements content\<rparr>
   \<and> processSectionContent U Projects content d = d\<lparr>projects := parseProjects content\<rparr>
   \<and> processSectionContent U Certifications content d
       = d\<lparr>certifications := parseCertifications content\<rparr>
   \<and> processSectionContent U Courses content d = d\<lparr>courses := parseCourses content\<rparr>
   \<and> (detectSectionHeader (toLowerCase U line) sectionKeywords = Some s \<longrightarrow>
        sectionStep U (cur, buf, d) line =
          (Some s, [],
           case cur of None \<Rightarrow> d
           | Some c \<Rightarrow> if buf = [] then d else processSectionContent U c buf d))
   \<and> (detectSectionHeader (toLowerCase U line) sectionKeywords = None \<longrightarrow>
        sectionStep U (cur, buf, d) line = (cur, (if cur = None then buf else buf @ [line]), d))
   \<and> (list_all (\<lambda>c. c < 128) line \<longrightarrow> length (toLowerCase U line) = length line)"
proof -
  have "map fst sectionKeywords =
     [Summary, Experience, Education, Skills, Achievements, Projects, Certifications, Courses]"
    by (simp add: sectionKeywords_def)
  moreover have "list_all (\<lambda>c. c < 128) line \<longrightarrow> length (toLowerCase U line) = length line"
    by (simp add: toLowerCase_def)
  moreover have "processSectionContent U Summary content d = d\<lparr>summary := trim (join (js '' '') content)\<rparr>"
    and "processSectionContent U Experience content d = d\<lparr>experience := parseExperience content\<rparr>"
    and "processSectionContent U Education content d = d\<lparr>education := parseEducation U content\<rparr>"
    and "processSectionContent U Skills content d = d\<lparr>skills := parseSkills content\<rparr>"
    and "processSectionContent U Achievements content d = d\<lparr>achievements := parseAchievements content\<rparr>"
    and "processSectionContent U Projects content d = d\<lparr>projects := parseProjects content\<rparr>"
    and "processSectionContent U Certifications content d
       = d\<lparr>certifications := parseCertifications content\<rparr>"
    and "processSectionContent U Courses content d = d\<lparr>courses := parseCourses content\<rparr>"
    by (simp_all add: processSectionContent_def)
  moreover have "detectSectionHeader (toLowerCase U h) sectionKeywords = Some s
        \<and> (\<forall>b \<in> set body. detectSectionHeader (toLowerCase U b) sectionKeywords = None) \<longrightarrow>
        extractSections U (pre @ h # body) d =
          (if body = [] then extractSections U pre d
           else processSectionContent U s body (extractSections U pre d))"
    using extractSections_header_body [of U h s body pre d] by blast
  moreover have "(\<forall>b \<in> set ls. detectSectionHeader (toLowerCase U b) sectionKeywords = None) \<longrightarrow>
        extractSections U ls d = d"
    using extractSections_no_header [of ls U d] by blast
  moreover note detect_iff [of l sectionKeywords] detect_find [of l sectionKeywords]
  moreover have "detectSectionHeader (toLowerCase U line) sectionKeywords = Some s \<longrightarrow>
        sectionStep U (cur, buf, d) line =
          (Some s, [],
           case cur of None \<Rightarrow> d
           | Some c \<Rightarrow> if buf = [] then d else processSectionContent U c buf d)"
    using step_header [of U line s cur buf d] by blast
  moreover have "detectSectionHeader (toLowerCase U line) sectionKeywords = None \<longrightarrow>
        sectionStep U (cur, buf, d) line = (cur, (if cur = None then buf else buf @ [line]), d)"
    using step_body [of U line cur buf d] by blast
  ultimately show ?thesis by (intro conjI)
qed

theorem section_header_step_witness:
  "detectSectionHeader (toLowerCase U0 (js ''Education & Training'')) sectionKeywords = Some Education
   \<and> detectSectionHeader (toLowerCase U0 (js ''Bachelor of Science'')) sectionKeywords = None
   \<and> extractSections U0
        [js ''SKILLS'', js ''Python, Go'', js ''Education & Training'', js ''Bachelor of Science'']
        emptyResumeData
       = emptyResumeData\<lparr>skills := [js ''Python'', js ''Go''],
           education := [\<lparr>degree = js ''Bachelor of Science'', institution = [], duration = [],
                           location_edu = []\<rparr>]\<rparr>
   \<and> detectSectionHeader (toLowerCase U0 (js ''Python'')) sectionKeywords = None
   \<and> extractSections U0 [js ''Python''] emptyResumeData = emptyResumeData
   \<and> sectionStep U0 (Some Skills, [js ''Python''], emptyResumeData) (js ''Education & Training'') =
       (Some Education, [], emptyResumeData\<lparr>skills := parseSkills [js ''Python'']\<rparr>)
   \<and> sectionStep U0 (Some Skills, [], emptyResumeData) (js ''Python'') =
       (Some Skills, [js ''Python''], emptyResumeData)
   \<and> list_all (\<lambda>c. c < 128) (js ''Python'')
   \<and> length (toLowerCase U0 (js ''Python'')) = length (js ''Python'')"
proof -
  have ascii: "list_all (\<lambda>c. c < 128) (js ''Python'')"
    by (simp add: js_def)
  note t1 = section_header_step [where l = "[]" and U = U0 and h = "js ''Education & Training''"
      and s = Education and body = "[js ''Bachelor of Science'']"
      and pre = "[js ''SKILLS'', js ''Python, Go'']" and d = emptyResumeData
      and ls = "[js ''Python'']" and line = "js ''Education & Training''"
      and cur = "Some Skills" and buf = "[js ''Python'']" and content = "[js ''Python'']"]
  note t2 = section_header_step [where l = "[]" and U = U0 and h = "js ''Education & Training''"
      and s = Education and body = "[]" and pre = "[]"
      and d = "emptyResumeData\<lparr>skills := [js ''Python'', js ''Go'']\<rparr>"
      and ls = "[]" and line = "js ''Python''"
      and cur = "Some Skills" and buf = "[]" and content = "[js ''Bachelor of Science'']"]
  note t3 = section_header_step [where l = "[]" and U = U0 and h = "js ''Education & Training''"
      and s = Education and body = "[]" and pre = "[]" and d = emptyResumeData
      and ls = "[]" and line = "js ''Python''"
      and cur = "Some Skills" and buf = "[]" and content = "[]"]
  have hyp: "detectSectionHeader (toLowerCase U0 (js ''Education & Training'')) sectionKeywords
        = Some Education
      \<and> (\<forall>b \<in> set [js ''Bachelor of Science''].
            detectSectionHeader (toLowerCase U0 b) sectionKeywords = None)"
    using example_header example_degree_line by simp
  have "extractSections U0
        ([js ''SKILLS'', js ''Python, Go''] @ js ''Education & Training'' # [js ''Bachelor of Science''])
        emptyResumeData
      = (if [js ''Bachelor of Science''] = []
         then extractSections U0 [js ''SKILLS'', js ''Python, Go''] emptyResumeData
         else processSectionContent U0 Education [js ''Bachelor of Science'']
          (extractSections U0 [js ''SKILLS'', js ''Python, Go''] emptyResumeData))"
    using t1 hyp by blast
  then have a: "extractSections U0
        [js ''SKILLS'', js ''Python, Go'', js ''Education & Training'', js ''Bachelor of Science'']
        emptyResumeData
      = processSectionContent U0 Education [js ''Bachelor of Science'']
          (extractSections U0 [js ''SKILLS'', js ''Python, Go''] emptyResumeData)"
    by simp
  have b: "processSectionContent U0 Education [js ''Bachelor of Science'']
        (emptyResumeData\<lparr>skills := [js ''Python'', js ''Go'']\<rparr>)
      = emptyResumeData\<lparr>skills := [js ''Python'', js ''Go''],
          education := parseEducation U0 [js ''Bachelor of Science'']\<rparr>"
    using t2 by blast
  have c: "extractSections U0
        [js ''SKILLS'', js ''Python, Go'', js ''Education & Training'', js ''Bachelor of Science'']
        emptyResumeData
       = emptyResumeData\<lparr>skills := [js ''Python'', js ''Go''],
           education := [\<lparr>degree = js ''Bachelor of Science'', institution = [], duration = [],
                           location_edu = []\<rparr>]\<rparr>"
    by (simp add: a b example_skills_section example_education)
  have "\<forall>b \<in> set [js ''Python'']. detectSectionHeader (toLowerCase U0 b) sectionKeywords = None"
    using example_body by simp
  then have e: "extractSections U0 [js ''Python''] emptyResumeData = emptyResumeData"
    using t1 by blast
  have "sectionStep U0 (Some Skills, [js ''Python''], emptyResumeData) (js ''Education & Training'') =
       (Some Education, [],
        case Some Skills of None \<Rightarrow> emptyResumeData
        | Some c \<Rightarrow> if [js ''Python''] = [] then emptyResumeData
                     else processSectionContent U0 c [js ''Python''] emptyResumeData)"
    using t1 example_header by blast
  moreover have "processSectionContent U0 Skills [js ''Python''] emptyResumeData
      = emptyResumeData\<lparr>skills := parseSkills [js ''Python'']\<rparr>"
    using t1 by blast
  ultimately have f: "sectionStep U0 (Some Skills, [js ''Python''], emptyResumeData)
        (js ''Education & Training'') =
       (Some Education, [], emptyResumeData\<lparr>skills := parseSkills [js ''Python'']\<rparr>)"
    by simp
  have "sectionStep U0 (Some Skills, [], emptyResumeData) (js ''Python'') =
       (Some Skills, (if Some Skills = None then [] else [] @ [js ''Python'']), emptyResumeData)"
    using t3 example_body by blast
  then have g: "sectionStep U0 (Some Skills, [], emptyResumeData) (js ''Python'') =
       (Some Skills, [js ''Python''], emptyResumeData)"
    by simp
  have k: "length (toLowerCase U0 (js ''Python'')) = length (js ''Python'')"
    using t3 ascii by blast
  show ?thesis
    using example_header example_degree_line example_body ascii c e f g k by blast
qed

text \<open>
  The line \<open>dottedLine\<close> has 49 code units and its lower-cased form contains the keyword
  \<open>skills\<close>, so it is a header by the words of claim C4; its lower-cased form has 50
  code units, so the segmenter finds no header and the line after it reaches no section.
\<close>

theorem section_header_counterexample:
  "length dottedLine = 49
   \<and> includes_str (toLowerCase lowerDotted dottedLine) (js ''skills'')
   \<and> list_ex (\<lambda>(s, ks). list_ex (includes_str (toLowerCase lowerDotted dottedLine)) ks) sectionKeywords
   \<and> length (toLowerCase lowerDotted dottedLine) = 50
   \<and> detectSectionHeader (toLowerCase lowerDotted dottedLine) sectionKeywords = None
   \<and> extractSections lowerDotted [dottedLine, js ''Python, Go''] emptyResumeData = emptyResumeData"
proof -
  have "length dottedLine = 49"
    by (simp add: dottedLine_def js_def)
  moreover have "includes_str (toLowerCase lowerDotted dottedLine) (js ''skills'')"
    by (simp add: dottedLine_lower js_def)
  moreover have "list_ex (\<lambda>(s, ks). list_ex (includes_str (toLowerCase lowerDotted dottedLine)) ks)
      sectionKeywords"
    by (simp add: dottedLine_lower sectionKeywords_def js_def)
  moreover have "length (toLowerCase lowerDotted dottedLine) = 50"
    by (simp add: dottedLine_lower js_def)
  moreover have "extractSections lowerDotted [dottedLine, js ''Python, Go''] emptyResumeData
      = emptyResumeData"
    by (rule extractSections_no_header) (simp add: dottedLine_no_header dotted_next_line)
  ultimately show ?thesis
    using dottedLine_no_header by blast
qed

end
